theory Spec2Isabelle
  imports Main
begin

section \<open>Python values\<close>

text \<open>
  A Python \<open>str\<close> is a sequence of Unicode code points; \<open>len\<close> counts code points and a
  slice takes code points. A string is therefore a list of code points, and a string
  literal of the source (all of them ASCII) is written \<open>str ''...''\<close>.
\<close>

type_synonym codepoint = nat
type_synonym pystr = "codepoint list"

definition str :: "string \<Rightarrow> pystr" where
  "str s = map of_char s"

text \<open>
  The code points that \<open>str.strip()\<close> without argument removes: those for which
  CPython's \<open>str.isspace\<close> holds (tab to carriage return, the four separators
  \<open>0x1C\<close> to \<open>0x1F\<close>, space, \<open>0x85\<close>, \<open>0xA0\<close>, \<open>0x1680\<close>, \<open>0x2000\<close> to
  \<open>0x200A\<close>, \<open>0x2028\<close>, \<open>0x2029\<close>, \<open>0x202F\<close>, \<open>0x205F\<close>, \<open>0x3000\<close>).
\<close>

definition isspace :: "codepoint \<Rightarrow> bool" where
  "isspace c \<longleftrightarrow>
     (9 \<le> c \<and> c \<le> 13) \<or> (28 \<le> c \<and> c \<le> 32) \<or> c = 133 \<or> c = 160 \<or> c = 5760 \<or>
     (8192 \<le> c \<and> c \<le> 8202) \<or> c = 8232 \<or> c = 8233 \<or> c = 8239 \<or> c = 8287 \<or> c = 12288"

definition strip :: "pystr \<Rightarrow> pystr" where
  "strip s = rev (dropWhile isspace (rev (dropWhile isspace s)))"

text \<open>
  A float is kept only as far as its truth value needs: a finite float is
  mantissa times a power of two, and only zero is false.
\<close>

datatype pyfloat = Finite int int | Infinite bool | NaN

text \<open>
  The values that \<open>response.json()\<close> can return and that the tool layer sends back.
  A \<open>dict\<close> is an association list in insertion order; a lookup takes the first
  entry of a key.
\<close>

datatype pyval =
    PNone
  | PBool bool
  | PInt int
  | PFloat pyfloat
  | PStr pystr
  | PList "pyval list"
  | PDict "(pystr \<times> pyval) list"

type_synonym pydict = "(pystr \<times> pyval) list"

text \<open>The truth value of \<open>if x:\<close> and \<open>not x\<close>.\<close>

fun truthy :: "pyval \<Rightarrow> bool" where
  "truthy PNone = False"
| "truthy (PBool b) = b"
| "truthy (PInt i) = (i \<noteq> 0)"
| "truthy (PFloat f) = (case f of Finite m e \<Rightarrow> m \<noteq> 0 | Infinite _ \<Rightarrow> True | NaN \<Rightarrow> True)"
| "truthy (PStr s) = (s \<noteq> [])"
| "truthy (PList xs) = (xs \<noteq> [])"
| "truthy (PDict d) = (d \<noteq> [])"

text \<open>
  The exceptions that the modelled code can meet. The first five are what
  \<open>requests.get\<close>, \<open>raise_for_status\<close> and \<open>response.json\<close> raise (a timeout, a
  connection failure, an HTTP status from 400 to 599, any other request failure, a
  body that is not JSON); the last three come from the operations on the decoded
  payload. All of them are subclasses of \<open>Exception\<close>.
\<close>

datatype pyexn =
    Timeout
  | ConnectionError
  | HTTPError
  | RequestException
  | ValueError
  | KeyError pystr
  | AttributeError
  | TypeError

definition and_then :: "pyexn + 'a \<Rightarrow> ('a \<Rightarrow> pyexn + 'b) \<Rightarrow> pyexn + 'b" where
  "and_then m f = (case m of Inl e \<Rightarrow> Inl e | Inr x \<Rightarrow> f x)"

text \<open>\<open>sub in s\<close> on two strings: \<open>sub\<close> occurs in \<open>s\<close> as a contiguous run.\<close>

fun str_contains :: "pystr \<Rightarrow> pystr \<Rightarrow> bool" where
  "str_contains [] sub = (sub = [])"
| "str_contains (c # s) sub = (take (length sub) (c # s) = sub \<or> str_contains s sub)"

text \<open>\<open>key in data\<close>: membership for a dict, a list and a string; a TypeError otherwise.\<close>

fun py_in :: "pystr \<Rightarrow> pyval \<Rightarrow> pyexn + bool" where
  "py_in key (PDict d) = Inr (map_of d key \<noteq> None)"
| "py_in key (PList xs) = Inr (PStr key \<in> set xs)"
| "py_in key (PStr s) = Inr (str_contains s key)"
| "py_in key _ = Inl TypeError"

text \<open>\<open>data[key]\<close> with a string key: a KeyError on a dict without the key, a TypeError on
  every other value (a list and a string take integer indices only).\<close>

fun py_getitem :: "pyval \<Rightarrow> pystr \<Rightarrow> pyexn + pyval" where
  "py_getitem (PDict d) key = (case map_of d key of None \<Rightarrow> Inl (KeyError key) | Some v \<Rightarrow> Inr v)"
| "py_getitem _ key = Inl TypeError"

text \<open>\<open>item.get(key, default)\<close>: only a dict has the method.\<close>

fun py_get :: "pyval \<Rightarrow> pystr \<Rightarrow> pyval \<Rightarrow> pyexn + pyval" where
  "py_get (PDict d) key dflt = Inr (case map_of d key of None \<Rightarrow> dflt | Some v \<Rightarrow> v)"
| "py_get _ key dflt = Inl AttributeError"

text \<open>\<open>d.items()\<close>: only a dict has the method.\<close>

fun py_items :: "pyval \<Rightarrow> pyexn + (pystr \<times> pyval) list" where
  "py_items (PDict d) = Inr d"
| "py_items _ = Inl AttributeError"

text \<open>\<open>len(x)\<close> and \<open>for item in x\<close>: a list gives its items, a dict its keys, a string
  its characters; the other values raise a TypeError.\<close>

fun py_len :: "pyval \<Rightarrow> pyexn + nat" where
  "py_len (PList xs) = Inr (length xs)"
| "py_len (PDict d) = Inr (length d)"
| "py_len (PStr s) = Inr (length s)"
| "py_len _ = Inl TypeError"

fun py_iter :: "pyval \<Rightarrow> pyexn + pyval list" where
  "py_iter (PList xs) = Inr xs"
| "py_iter (PDict d) = Inr (map (\<lambda>kv. PStr (fst kv)) d)"
| "py_iter (PStr s) = Inr (map (\<lambda>c. PStr [c]) s)"
| "py_iter _ = Inl TypeError"

text \<open>\<open>d[key] = v\<close> on a dict: replaces the value of a present key, appends a new one.\<close>

fun dict_set :: "pydict \<Rightarrow> pystr \<Rightarrow> pyval \<Rightarrow> pydict" where
  "dict_set [] key v = [(key, v)]"
| "dict_set ((k, w) # d) key v = (if k = key then (k, v) # d else (k, w) # dict_set d key v)"

section \<open>The gateway: \<open>TheNewsAPIClient\<close>\<close>

datatype NewsCategory =
    general | science | sports | business | health
  | entertainment | tech | politics | food | travel

text \<open>\<open>NewsCategory\<close> is a \<open>str\<close> enum: each member is the string of its name.\<close>

fun category_value :: "NewsCategory \<Rightarrow> pystr" where
  "category_value general = str ''general''"
| "category_value science = str ''science''"
| "category_value sports = str ''sports''"
| "category_value business = str ''business''"
| "category_value health = str ''health''"
| "category_value entertainment = str ''entertainment''"
| "category_value tech = str ''tech''"
| "category_value politics = str ''politics''"
| "category_value food = str ''food''"
| "category_value travel = str ''travel''"

record TheNewsAPIClient =
  access_token :: "pystr option"
  domains :: "pystr list"
  languages :: "pystr list"

definition init_client :: "pystr option \<Rightarrow> TheNewsAPIClient" where
  "init_client token =
     \<lparr> access_token = token,
       domains = [str ''nytimes.com'', str ''bbc.com'', str ''apnews.com''],
       languages = [str ''en''] \<rparr>"

text \<open>
  What a call does besides returning is recorded in a trace: each entry into a gateway
  method with its arguments, and each HTTP GET with its URL and its query parameters.
  Log records are not part of the trace. The upstream service is a parameter
  \<open>http\<close>: for the URL and parameters of a GET it gives what \<open>requests.get(...)\<close>
  produces, the exception it raised or the response. Of a response the model keeps
  the status code and the decoded body, \<open>None\<close> for a body that is not JSON.
\<close>

record http_response =
  status_code :: int
  body :: "pyval option"

datatype event =
    Invoke_search_news pystr "NewsCategory list option" int
  | Invoke_search_news_by_uuid pystr
  | Invoke_search_similar_news_by_uuid pystr int "NewsCategory list option"
  | Http_get pystr pydict

type_synonym upstream = "pystr \<Rightarrow> pydict \<Rightarrow> pyexn + http_response"

text \<open>
  \<open>response.raise_for_status()\<close> of the requests library raises \<open>HTTPError\<close> for the
  client errors 400 to 499 and the server errors 500 to 599, and for no other status.
  \<open>response.json()\<close> raises a \<open>ValueError\<close> for a body that is not JSON.
\<close>

definition raise_for_status :: "http_response \<Rightarrow> pyexn + unit" where
  "raise_for_status response =
     (if 400 \<le> status_code response \<and> status_code response < 600 then Inl HTTPError
      else Inr ())"

definition response_json :: "http_response \<Rightarrow> pyexn + pyval" where
  "response_json response = (case body response of None \<Rightarrow> Inl ValueError | Some data \<Rightarrow> Inr data)"

text \<open>
  The first three lines of each \<open>try\<close> block: \<open>response = requests.get(...)\<close>,
  \<open>response.raise_for_status()\<close>, \<open>data = response.json()\<close>.
\<close>

definition request_json :: "upstream \<Rightarrow> pystr \<Rightarrow> pydict \<Rightarrow> pyexn + pyval" where
  "request_json http api_url params =
     and_then (http api_url params) (\<lambda>response.
     and_then (raise_for_status response) (\<lambda>_.
       response_json response))"

definition token_value :: "pystr option \<Rightarrow> pyval" where
  "token_value t = (case t of None \<Rightarrow> PNone | Some s \<Rightarrow> PStr s)"

definition categories_value :: "NewsCategory list option \<Rightarrow> pyval" where
  "categories_value cs =
     (case cs of None \<Rightarrow> PNone | Some l \<Rightarrow> PList (map (\<lambda>c. PStr (category_value c)) l))"

text \<open>
  The part of each \<open>try\<close> block between \<open>response.json()\<close> and the reading of the
  results, the same in the three methods: an \<open>error\<close> entry is read (its \<open>code\<close> and
  \<open>info\<close> for the log) and ends the call; the items of a \<open>warnings\<close> entry are read for
  the log. The result is whether an \<open>error\<close> entry was found.
\<close>

definition upstream_error :: "pyval \<Rightarrow> pyexn + bool" where
  "upstream_error data =
     and_then (py_in (str ''error'') data) (\<lambda>has_error.
       if has_error then
         and_then (py_getitem data (str ''error'')) (\<lambda>error_info.
         and_then (py_get error_info (str ''code'') (PStr (str ''unknown''))) (\<lambda>_.
         and_then (py_get error_info (str ''info'') (PStr (str ''No details''))) (\<lambda>_.
           Inr True)))
       else
         and_then (py_in (str ''warnings'') data) (\<lambda>has_warnings.
           if has_warnings then
             and_then (py_getitem data (str ''warnings'')) (\<lambda>warnings.
             and_then (py_items warnings) (\<lambda>_. Inr False))
           else Inr False))"

text \<open>The dict appended for one item in \<open>search_news\<close>.\<close>

definition search_news_article :: "pyval \<Rightarrow> pyval \<Rightarrow> pyexn + pyval" where
  "search_news_article item title =
     and_then (py_get item (str ''description'') (PStr [])) (\<lambda>description.
     and_then (py_get item (str ''snippet'') (PStr [])) (\<lambda>snippet.
     and_then (py_get item (str ''uuid'') (PInt 0)) (\<lambda>uuid.
     and_then (py_get item (str ''published_at'') (PStr [])) (\<lambda>published_at.
     and_then (py_get item (str ''url'') (PStr [])) (\<lambda>url.
     and_then (py_get item (str ''source'') (PInt 0)) (\<lambda>source.
       Inr (PDict
         [(str ''title'', title),
          (str ''description'', description),
          (str ''snippet'', snippet),
          (str ''uuid'', uuid),
          (str ''published_at'', published_at),
          (str ''url'', url),
          (str ''source'', source)])))))))"

text \<open>The dict appended for one item in \<open>search_similar_news_by_uuid\<close>.\<close>

definition similar_news_article :: "pyval \<Rightarrow> pyval \<Rightarrow> pyexn + pyval" where
  "similar_news_article item title =
     and_then (py_get item (str ''description'') (PStr [])) (\<lambda>description.
     and_then (py_get item (str ''snippet'') (PStr [])) (\<lambda>snippet.
     and_then (py_get item (str ''uuid'') (PInt 0)) (\<lambda>uuid.
     and_then (py_get item (str ''source'') (PInt 0)) (\<lambda>source.
     and_then (py_get item (str ''published_at'') (PStr [])) (\<lambda>published_at.
     and_then (py_get item (str ''url'') (PStr [])) (\<lambda>url.
       Inr (PDict
         [(str ''title'', title),
          (str ''description'', description),
          (str ''snippet'', snippet),
          (str ''uuid'', uuid),
          (str ''source'', source),
          (str ''published_at'', published_at),
          (str ''url'', url)])))))))"

text \<open>
  The loop \<open>for item in search_results\<close> of both list methods, with the list
  \<open>results\<close> built so far: an item whose \<open>title\<close> is false is skipped, the other
  items are appended as the dict that \<open>article\<close> builds.
\<close>

fun collect_results ::
  "(pyval \<Rightarrow> pyval \<Rightarrow> pyexn + pyval) \<Rightarrow> pyval list \<Rightarrow> pyval list \<Rightarrow> pyexn + pyval list" where
  "collect_results article [] results = Inr results"
| "collect_results article (item # rest) results =
     and_then (py_get item (str ''title'') PNone) (\<lambda>title.
       if \<not> truthy title then collect_results article rest results
       else and_then (article item title) (\<lambda>a.
              collect_results article rest (results @ [a])))"

text \<open>The \<open>try\<close> block of \<open>search_news\<close> from the decoded payload on.\<close>

definition search_news_payload :: "pyval \<Rightarrow> pyexn + pyval list" where
  "search_news_payload data =
     and_then (upstream_error data) (\<lambda>failed.
       if failed then Inr []
       else
         and_then (py_get data (str ''data'') (PList [])) (\<lambda>search_results.
         and_then (py_len search_results) (\<lambda>_.
         and_then (py_iter search_results) (\<lambda>items.
           collect_results search_news_article items []))))"

text \<open>
  The \<open>except\<close> clauses of \<open>search_news\<close> and \<open>search_similar_news_by_uuid\<close>, in the
  order of the source; the last one stands for \<open>except Exception\<close>.
\<close>

fun except_empty_list :: "pyexn \<Rightarrow> pyexn + pyval list" where
  "except_empty_list Timeout = Inr []"
| "except_empty_list ConnectionError = Inr []"
| "except_empty_list HTTPError = Inr []"
| "except_empty_list RequestException = Inr []"
| "except_empty_list ValueError = Inr []"
| "except_empty_list _ = Inr []"

text \<open>The three endpoints (the last two are followed by the identifier).\<close>

definition news_all_url :: pystr where
  "news_all_url = str ''https://api.thenewsapi.com/v1/news/all''"

definition news_uuid_url :: pystr where
  "news_uuid_url = str ''https://api.thenewsapi.com/v1/news/uuid/''"

definition news_similar_url :: pystr where
  "news_similar_url = str ''https://api.thenewsapi.com/v1/news/similar/''"

text \<open>The query text and the parameters that \<open>search_news\<close> puts together before the request.\<close>

definition search_news_params ::
  "TheNewsAPIClient \<Rightarrow> pystr \<Rightarrow> NewsCategory list option \<Rightarrow> int \<Rightarrow> pydict" where
  "search_news_params self query categories limit =
     (let trimmed_query = strip query;
          trimmed_query = (if length trimmed_query > 300 then take 100 trimmed_query
                           else trimmed_query);
          limit = (if limit \<le> 0 then 1 else if limit > 3 then 3 else limit);
          params = [(str ''api_token'', token_value (access_token self)),
                    (str ''search'', PStr trimmed_query),
                    (str ''limit'', PInt limit),
                    (str ''domains'', PList (map PStr (domains self))),
                    (str ''language'', PList (map PStr (languages self)))]
      in if truthy (categories_value categories)
         then dict_set params (str ''categories'') (categories_value categories)
         else params)"

definition search_news ::
  "TheNewsAPIClient \<Rightarrow> upstream \<Rightarrow> pystr \<Rightarrow> NewsCategory list option \<Rightarrow> int \<Rightarrow>
   event list \<Rightarrow> (pyexn + pyval list) \<times> event list" where
  "search_news self http query categories limit trace0 =
     (let trace = trace0 @ [Invoke_search_news query categories limit] in
      if query = [] \<or> strip query = [] then (Inr [], trace)
      else
        let api_url = news_all_url;
            params = search_news_params self query categories limit;
            data = request_json http api_url params;
            trace = trace @ [Http_get api_url params]
        in (case and_then data search_news_payload of
              Inl exc \<Rightarrow> except_empty_list exc
            | Inr results \<Rightarrow> Inr results,
            trace))"

text \<open>
  The dict comprehension \<open>{key: data[key] for key in keys}\<close> of
  \<open>search_news_by_uuid\<close>: the keys are read in order, and the first one that
  \<open>data\<close> does not have raises.
\<close>

fun extract_keys :: "pyval \<Rightarrow> pystr list \<Rightarrow> pyexn + pydict" where
  "extract_keys data [] = Inr []"
| "extract_keys data (key # keys) =
     and_then (py_getitem data key) (\<lambda>v.
     and_then (extract_keys data keys) (\<lambda>result. Inr ((key, v) # result)))"

definition article_keys :: "pystr list" where
  "article_keys =
     [str ''uuid'', str ''title'', str ''snippet'', str ''description'', str ''url'', str ''source'']"

text \<open>The \<open>try\<close> block of \<open>search_news_by_uuid\<close> from the decoded payload on.\<close>

definition search_news_by_uuid_payload :: "pyval \<Rightarrow> pyexn + pyval" where
  "search_news_by_uuid_payload data =
     and_then (upstream_error data) (\<lambda>failed.
       if failed then Inr (PList [])
       else and_then (extract_keys data article_keys) (\<lambda>result. Inr (PDict result)))"

text \<open>The \<open>except\<close> clauses of \<open>search_news_by_uuid\<close>, in the order of the source.\<close>

fun except_empty_result :: "pyexn \<Rightarrow> pyexn + pyval" where
  "except_empty_result Timeout = Inr (PList [])"
| "except_empty_result ConnectionError = Inr (PList [])"
| "except_empty_result HTTPError = Inr (PList [])"
| "except_empty_result RequestException = Inr (PList [])"
| "except_empty_result ValueError = Inr (PList [])"
| "except_empty_result _ = Inr (PList [])"

definition search_news_by_uuid ::
  "TheNewsAPIClient \<Rightarrow> upstream \<Rightarrow> pystr \<Rightarrow> event list \<Rightarrow> (pyexn + pyval) \<times> event list" where
  "search_news_by_uuid self http uuid trace0 =
     (let trace = trace0 @ [Invoke_search_news_by_uuid uuid];
          api_url = news_uuid_url @ uuid;
          params = [(str ''api_token'', token_value (access_token self))];
          data = request_json http api_url params;
          trace = trace @ [Http_get api_url params]
      in (case and_then data search_news_by_uuid_payload of
            Inl exc \<Rightarrow> except_empty_result exc
          | Inr result \<Rightarrow> Inr result,
          trace))"

text \<open>The \<open>try\<close> block of \<open>search_similar_news_by_uuid\<close> from the decoded payload on.\<close>

definition search_similar_news_payload :: "pyval \<Rightarrow> pyexn + pyval list" where
  "search_similar_news_payload data =
     and_then (upstream_error data) (\<lambda>failed.
       if failed then Inr []
       else
         and_then (py_get data (str ''data'') (PList [])) (\<lambda>search_results.
         and_then (py_iter search_results) (\<lambda>items.
           collect_results similar_news_article items [])))"

definition search_similar_news_params ::
  "TheNewsAPIClient \<Rightarrow> int \<Rightarrow> NewsCategory list option \<Rightarrow> pydict" where
  "search_similar_news_params self limit categories =
     (let limit = (if limit \<le> 0 then 1 else if limit > 3 then 3 else limit)
      in [(str ''api_token'', token_value (access_token self)),
          (str ''limit'', PInt limit),
          (str ''categories'', categories_value categories),
          (str ''domains'', PList (map PStr (domains self))),
          (str ''language'', PList (map PStr (languages self)))])"

definition search_similar_news_by_uuid ::
  "TheNewsAPIClient \<Rightarrow> upstream \<Rightarrow> pystr \<Rightarrow> int \<Rightarrow> NewsCategory list option \<Rightarrow>
   event list \<Rightarrow> (pyexn + pyval list) \<times> event list" where
  "search_similar_news_by_uuid self http uuid limit categories trace0 =
     (let trace = trace0 @ [Invoke_search_similar_news_by_uuid uuid limit categories];
          api_url = news_similar_url @ uuid;
          params = search_similar_news_params self limit categories;
          data = request_json http api_url params;
          trace = trace @ [Http_get api_url params]
      in (case and_then data search_similar_news_payload of
            Inl exc \<Rightarrow> except_empty_list exc
          | Inr results \<Rightarrow> Inr results,
          trace))"

section \<open>The tool layer: \<open>create_server\<close>\<close>

text \<open>The message that both tools add to an envelope without results.\<close>

definition no_results_message :: pystr where
  "no_results_message =
     str (''No search results found. This could indicate connectivity issues, '' @
          ''API errors, or simply no matching articles.'')"

text \<open>
  The tool \<open>search\<close>, for the client that \<open>create_server\<close> made. An exception of the
  gateway call would leave the tool as it is.
\<close>

definition search ::
  "TheNewsAPIClient \<Rightarrow> upstream \<Rightarrow> pystr \<Rightarrow> int \<Rightarrow> NewsCategory list option \<Rightarrow>
   event list \<Rightarrow> (pyexn + pyval) \<times> event list" where
  "search thenewsapi_client http query limit categories trace =
     (if query = [] \<or> strip query = [] then
        (Inr (PDict
           [(str ''query'', PStr query),
            (str ''results'', PList []),
            (str ''status'', PStr (str ''error'')),
            (str ''message'', PStr (str ''Empty search query provided''))]),
         trace)
      else
        let validated_limit = (if limit \<le> 0 then 1 else if limit > 3 then 3 else limit)
        in case search_news thenewsapi_client http query categories validated_limit trace of
             (Inl exc, trace') \<Rightarrow> (Inl exc, trace')
           | (Inr results, trace') \<Rightarrow>
               let status = (if results \<noteq> [] then str ''success'' else str ''no_results'');
                   response = [(str ''query'', PStr query),
                               (str ''results'', PList results),
                               (str ''status'', PStr status),
                               (str ''count'', PInt (int (length results)))];
                   response = (if results = []
                               then dict_set response (str ''message'')
                                      (PStr no_results_message)
                               else response)
               in (Inr (PDict response), trace'))"

text \<open>The tool \<open>get_article\<close>.\<close>

definition get_article ::
  "TheNewsAPIClient \<Rightarrow> upstream \<Rightarrow> pystr \<Rightarrow> event list \<Rightarrow> (pyexn + pyval) \<times> event list" where
  "get_article thenewsapi_client http uuid trace =
     (if uuid = [] \<or> strip uuid = [] then
        (Inr (PDict
           [(str ''uuid'', PStr uuid),
            (str ''results'', PList []),
            (str ''status'', PStr (str ''error'')),
            (str ''message'', PStr (str ''Empty search query provided''))]),
         trace)
      else
        case search_news_by_uuid thenewsapi_client http uuid trace of
          (Inl exc, trace') \<Rightarrow> (Inl exc, trace')
        | (Inr result, trace') \<Rightarrow>
            let status = (if truthy result then str ''success'' else str ''no_results'');
                response = [(str ''uuid'', PStr uuid),
                            (str ''result'', result),
                            (str ''status'', PStr status)];
                response = (if \<not> truthy result
                            then dict_set response (str ''message'')
                                   (PStr no_results_message)
                            else response)
            in (Inr (PDict response), trace'))"

text \<open>For the examples: the response with the status 200 and a JSON body.\<close>

definition ok_response :: "pyval \<Rightarrow> http_response" where
  "ok_response data = \<lparr> status_code = 200, body = Some data \<rparr>"

text \<open>Reading an envelope: the value of a key, and the HTTP requests of a trace.\<close>

definition field :: "pyval \<Rightarrow> string \<Rightarrow> pyval option" where
  "field v key = (case v of PDict d \<Rightarrow> map_of d (str key) | _ \<Rightarrow> None)"

fun http_requests :: "event list \<Rightarrow> (pystr \<times> pydict) list" where
  "http_requests [] = []"
| "http_requests (Http_get url params # es) = (url, params) # http_requests es"
| "http_requests (_ # es) = http_requests es"

definition sent_param :: "string \<Rightarrow> event list \<Rightarrow> pyval option list" where
  "sent_param key trace = map (\<lambda>request. map_of (snd request) (str key)) (http_requests trace)"

definition envelope_field :: "(pyexn + pyval) \<times> event list \<Rightarrow> string \<Rightarrow> pyval option" where
  "envelope_field r key = (case fst r of Inl _ \<Rightarrow> None | Inr env \<Rightarrow> field env key)"

text \<open>
  For the statements about the result array: whether an item is a JSON object, the
  title that the loop reads from an object (an item of another kind has none), whether
  the title counts as present, and a success payload: a payload without an \<open>error\<close>
  entry, with no \<open>warnings\<close> or an object of warnings, whose \<open>data\<close> is the array
  \<open>items\<close>.
\<close>

fun is_object :: "pyval \<Rightarrow> bool" where
  "is_object (PDict d) = True"
| "is_object _ = False"

fun item_title :: "pyval \<Rightarrow> pyval" where
  "item_title (PDict d) = (case map_of d (str ''title'') of None \<Rightarrow> PNone | Some v \<Rightarrow> v)"
| "item_title _ = PNone"

definition has_title :: "pyval \<Rightarrow> bool" where
  "has_title item = truthy (item_title item)"

definition result_array :: "pydict \<Rightarrow> pyval list \<Rightarrow> bool" where
  "result_array payload items \<longleftrightarrow>
     map_of payload (str ''error'') = None \<and>
     (case map_of payload (str ''warnings'') of None \<Rightarrow> True | Some w \<Rightarrow> is_object w) \<and>
     map_of payload (str ''data'') = Some (PList items)"

section \<open>Facts about the Python operations\<close>

lemma str_eq_iff [simp]: "str a = str b \<longleftrightarrow> a = b"
  unfolding str_def using inj_of_char [where ?'a = nat] by simp

lemma str_eq_Nil_iff [simp]: "str a = [] \<longleftrightarrow> a = []"
  by (simp add: str_def)

lemma dropWhile_all_iff: "(\<forall>x \<in> set (dropWhile P xs). P x) \<longleftrightarrow> (\<forall>x \<in> set xs. P x)"
proof
  assume all: "\<forall>x \<in> set (dropWhile P xs). P x"
  have "dropWhile P xs = []"
  proof (rule ccontr)
    assume ne: "dropWhile P xs \<noteq> []"
    then have "\<not> P (hd (dropWhile P xs))" by (rule hd_dropWhile)
    moreover from ne have "hd (dropWhile P xs) \<in> set (dropWhile P xs)" by simp
    ultimately show False using all by blast
  qed
  then show "\<forall>x \<in> set xs. P x" by simp
next
  assume "\<forall>x \<in> set xs. P x"
  then show "\<forall>x \<in> set (dropWhile P xs). P x" by (blast dest: set_dropWhileD)
qed

lemma strip_eq_Nil_iff: "strip s = [] \<longleftrightarrow> (\<forall>c \<in> set s. isspace c)"
  by (simp add: strip_def dropWhile_all_iff)

lemma and_then_Inl [simp]: "and_then (Inl e) f = Inl e"
  by (simp add: and_then_def)

lemma and_then_Inr [simp]: "and_then (Inr x) f = f x"
  by (simp add: and_then_def)

lemma request_json_raised:
  "http api_url params = Inl exc \<Longrightarrow> request_json http api_url params = Inl exc"
  by (simp add: request_json_def)

lemma request_json_error_status:
  "http api_url params = Inr response \<Longrightarrow>
   400 \<le> status_code response \<Longrightarrow> status_code response < 600 \<Longrightarrow>
   request_json http api_url params = Inl HTTPError"
  by (simp add: request_json_def raise_for_status_def)

lemma request_json_no_json:
  "http api_url params = Inr response \<Longrightarrow> body response = None \<Longrightarrow>
   \<exists>exc. request_json http api_url params = Inl exc"
  by (simp add: request_json_def raise_for_status_def response_json_def)

lemma request_json_body:
  "http api_url params = Inr response \<Longrightarrow> body response = Some data \<Longrightarrow>
   request_json http api_url params =
     (if 400 \<le> status_code response \<and> status_code response < 600 then Inl HTTPError
      else Inr data)"
  by (simp add: request_json_def raise_for_status_def response_json_def)

lemma request_json_ok [simp]:
  "request_json (\<lambda>url params. Inr (ok_response data)) api_url params = Inr data"
  by (simp add: request_json_def raise_for_status_def response_json_def ok_response_def)

lemma map_of_dict_set: "map_of (dict_set d k v) = (map_of d)(k \<mapsto> v)"
  by (induction d k v rule: dict_set.induct) auto

lemma except_empty_list_eq [simp]: "except_empty_list e = Inr []"
  by (cases e) simp_all

lemma except_empty_result_eq [simp]: "except_empty_result e = Inr (PList [])"
  by (cases e) simp_all

lemma search_news_blank:
  "strip query = [] \<Longrightarrow>
   search_news self http query categories limit trace =
     (Inr [], trace @ [Invoke_search_news query categories limit])"
  by (simp add: search_news_def)

lemma search_news_request:
  "strip query \<noteq> [] \<Longrightarrow>
   snd (search_news self http query categories limit trace) =
     trace @ [Invoke_search_news query categories limit,
              Http_get news_all_url
                (search_news_params self query categories limit)]"
  by (auto simp add: search_news_def Let_def strip_def)

lemma search_news_returns:
  "\<exists>results. fst (search_news self http query categories limit trace) = Inr results"
  by (simp add: search_news_def Let_def split: sum.split)

lemma limit_param:
  "map_of (search_news_params self query categories limit) (str ''limit'') =
     Some (PInt (if limit \<le> 0 then 1 else if 3 < limit then 3 else limit))"
  by (simp add: search_news_params_def Let_def map_of_dict_set)

lemma search_param:
  "map_of (search_news_params self query categories limit) (str ''search'') =
     Some (PStr (if 300 < length (strip query) then take 100 (strip query) else strip query))"
  by (simp add: search_news_params_def Let_def map_of_dict_set)

lemma http_requests_append: "http_requests (es @ fs) = http_requests es @ http_requests fs"
  by (induction es rule: http_requests.induct) simp_all

lemma sent_param_append: "sent_param key (es @ fs) = sent_param key es @ sent_param key fs"
  by (simp add: sent_param_def http_requests_append)

lemma search_valid:
  assumes "strip query \<noteq> []"
    and "search_news cl http query categories
           (if limit \<le> 0 then 1 else if 3 < limit then 3 else limit) trace = (Inr results, trace')"
  shows "search cl http query limit categories trace =
           (Inr (PDict
              (if results = [] then
                 [(str ''query'', PStr query),
                  (str ''results'', PList results),
                  (str ''status'', PStr (str ''no_results'')),
                  (str ''count'', PInt (int (length results))),
                  (str ''message'', PStr no_results_message)]
               else
                 [(str ''query'', PStr query),
                  (str ''results'', PList results),
                  (str ''status'', PStr (str ''success'')),
                  (str ''count'', PInt (int (length results)))])),
            trace')"
proof -
  from assms(1) have "\<not> (query = [] \<or> strip query = [])"
    by (auto simp add: strip_def)
  with assms(2) show ?thesis
    by (simp add: search_def Let_def)
qed

lemma upstream_error_reported:
  assumes "map_of d (str ''error'') = Some v"
  shows "upstream_error (PDict d) = Inr True \<or> (\<exists>exc. upstream_error (PDict d) = Inl exc)"
proof (cases "py_get v (str ''code'') (PStr (str ''unknown''))")
  case (Inl exc)
  with assms show ?thesis by (simp add: upstream_error_def)
next
  case code: (Inr c)
  show ?thesis
  proof (cases "py_get v (str ''info'') (PStr (str ''No details''))")
    case (Inl exc)
    with assms code show ?thesis by (simp add: upstream_error_def)
  next
    case (Inr i)
    with assms code show ?thesis by (simp add: upstream_error_def)
  qed
qed

lemma search_news_payload_reported:
  assumes "map_of d (str ''error'') = Some v"
  shows "search_news_payload (PDict d) = Inr [] \<or> (\<exists>exc. search_news_payload (PDict d) = Inl exc)"
  using upstream_error_reported [OF assms] by (auto simp add: search_news_payload_def)

lemma search_news_result:
  assumes "strip query \<noteq> []"
  shows "fst (search_news self http query categories limit trace) =
           (case and_then (request_json http news_all_url
                             (search_news_params self query categories limit))
                   search_news_payload of
              Inl exc \<Rightarrow> Inr []
            | Inr results \<Rightarrow> Inr results)"
proof -
  from assms have "\<not> (query = [] \<or> strip query = [])"
    by (auto simp add: strip_def)
  then show ?thesis
    by (simp add: search_news_def Let_def split: sum.split)
qed

lemma search_news_article_object:
  "is_object item \<Longrightarrow>
   \<exists>a. search_news_article item title = Inr a \<and> field a ''title'' = Some title"
  by (cases item) (simp_all add: search_news_article_def field_def)

lemma similar_news_article_object:
  "is_object item \<Longrightarrow>
   \<exists>a. similar_news_article item title = Inr a \<and> field a ''title'' = Some title"
  by (cases item) (simp_all add: similar_news_article_def field_def)

lemma py_get_title: "is_object item \<Longrightarrow> py_get item (str ''title'') PNone = Inr (item_title item)"
  by (cases item) simp_all

lemma collect_results_objects:
  assumes article: "\<And>item title. is_object item \<Longrightarrow>
             \<exists>a. article item title = Inr a \<and> field a ''title'' = Some title"
    and objects: "\<forall>item \<in> set items. is_object item"
  shows "\<exists>rs. collect_results article items acc = Inr (acc @ rs) \<and>
              map (\<lambda>a. field a ''title'') rs = map (\<lambda>item. Some (item_title item)) (filter has_title items)"
  using objects
proof (induction items arbitrary: acc)
  case Nil
  then show ?case by simp
next
  case (Cons item items)
  then have obj: "is_object item" and rest: "\<forall>item \<in> set items. is_object item"
    by simp_all
  show ?case
  proof (cases "has_title item")
    case False
    then have "\<not> truthy (item_title item)"
      by (simp add: has_title_def)
    then have "collect_results article (item # items) acc = collect_results article items acc"
      using obj by (simp add: py_get_title)
    with Cons.IH [OF rest, of acc] False show ?thesis
      by simp
  next
    case True
    from article [OF obj, of "item_title item"] obtain a where
      a: "article item (item_title item) = Inr a" "field a ''title'' = Some (item_title item)"
      by blast
    from Cons.IH [OF rest, of "acc @ [a]"] obtain rs where
      rs: "collect_results article items (acc @ [a]) = Inr (acc @ [a] @ rs)"
          "map (\<lambda>a. field a ''title'') rs = map (\<lambda>item. Some (item_title item)) (filter has_title items)"
      by auto
    from True have titled: "truthy (item_title item)"
      by (simp add: has_title_def)
    have "collect_results article (item # items) acc = Inr (acc @ a # rs)"
      using titled obj a(1) rs(1) by (simp add: py_get_title)
    moreover have "map (\<lambda>a. field a ''title'') (a # rs) =
        map (\<lambda>item. Some (item_title item)) (filter has_title (item # items))"
      using True a(2) rs(2) by simp
    ultimately show ?thesis by blast
  qed
qed

lemma collect_results_non_object:
  assumes article: "\<And>item title. is_object item \<Longrightarrow> \<exists>a. article item title = Inr a"
    and other: "\<exists>item \<in> set items. \<not> is_object item"
  shows "collect_results article items acc = Inl AttributeError"
  using other
proof (induction items arbitrary: acc)
  case Nil
  then show ?case by simp
next
  case (Cons item items)
  show ?case
  proof (cases "is_object item")
    case False
    then have "py_get item (str ''title'') PNone = Inl AttributeError"
      by (cases item) simp_all
    then show ?thesis by simp
  next
    case True
    with Cons.prems have rest: "\<exists>item \<in> set items. \<not> is_object item"
      by auto
    from article [OF True, of "item_title item"] obtain a where
      a: "article item (item_title item) = Inr a"
      by blast
    have "collect_results article (item # items) acc =
            (if \<not> truthy (item_title item) then collect_results article items acc
             else collect_results article items (acc @ [a]))"
      using True a by (simp add: py_get_title)
    with Cons.IH [OF rest] show ?thesis by simp
  qed
qed

lemma upstream_error_success:
  "result_array payload items \<Longrightarrow> upstream_error (PDict payload) = Inr False"
  by (cases "map_of payload (str ''warnings'')"; cases "the (map_of payload (str ''warnings''))")
     (auto simp add: result_array_def upstream_error_def)

lemma search_news_payload_success:
  "result_array payload items \<Longrightarrow>
   search_news_payload (PDict payload) = collect_results search_news_article items []"
  by (simp add: search_news_payload_def upstream_error_success) (simp add: result_array_def)

lemma search_similar_news_payload_success:
  "result_array payload items \<Longrightarrow>
   search_similar_news_payload (PDict payload) = collect_results similar_news_article items []"
  by (simp add: search_similar_news_payload_def upstream_error_success) (simp add: result_array_def)

lemma search_similar_news_result:
  "fst (search_similar_news_by_uuid self http uuid limit categories trace) =
     (case and_then (request_json http (news_similar_url @ uuid)
                       (search_similar_news_params self limit categories))
             search_similar_news_payload of
        Inl exc \<Rightarrow> Inr []
      | Inr results \<Rightarrow> Inr results)"
  by (simp add: search_similar_news_by_uuid_def Let_def split: sum.split)

lemma non_object_item_empty_list:
  assumes "result_array payload items" and "\<exists>item \<in> set items. \<not> is_object item"
  shows "strip query \<noteq> [] \<Longrightarrow>
         request_json http news_all_url (search_news_params self query categories limit) =
           Inr (PDict payload) \<Longrightarrow>
         fst (search_news self http query categories limit trace) = Inr []"
    and "request_json http (news_similar_url @ uuid)
           (search_similar_news_params self limit categories) = Inr (PDict payload) \<Longrightarrow>
         fst (search_similar_news_by_uuid self http uuid limit categories trace) = Inr []"
proof -
  have "\<And>item title. is_object item \<Longrightarrow> \<exists>a. search_news_article item title = Inr a"
    using search_news_article_object by blast
  from collect_results_non_object [of search_news_article items "[]", OF this assms(2)]
  have "collect_results search_news_article items [] = Inl AttributeError" .
  then have first: "search_news_payload (PDict payload) = Inl AttributeError"
    by (simp only: search_news_payload_success [OF assms(1)])
  have "\<And>item title. is_object item \<Longrightarrow> \<exists>a. similar_news_article item title = Inr a"
    using similar_news_article_object by blast
  from collect_results_non_object [of similar_news_article items "[]", OF this assms(2)]
  have "collect_results similar_news_article items [] = Inl AttributeError" .
  then have second: "search_similar_news_payload (PDict payload) = Inl AttributeError"
    by (simp only: search_similar_news_payload_success [OF assms(1)])
  show "strip query \<noteq> [] \<Longrightarrow>
         request_json http news_all_url (search_news_params self query categories limit) =
           Inr (PDict payload) \<Longrightarrow>
         fst (search_news self http query categories limit trace) = Inr []"
    using first by (simp add: search_news_result)
  show "request_json http (news_similar_url @ uuid)
           (search_similar_news_params self limit categories) = Inr (PDict payload) \<Longrightarrow>
         fst (search_similar_news_by_uuid self http uuid limit categories trace) = Inr []"
    using second by (simp add: search_similar_news_result)
qed

lemma titles_kept:
  assumes "map (\<lambda>a. field a ''title'') rs = map (\<lambda>item. Some (item_title item)) (filter has_title items)"
  shows "(\<forall>a \<in> set rs. \<exists>t. field a ''title'' = Some t \<and> truthy t) \<and>
         length rs = length (filter has_title items)"
proof
  show "length rs = length (filter has_title items)"
    using assms by (metis length_map)
  show "\<forall>a \<in> set rs. \<exists>t. field a ''title'' = Some t \<and> truthy t"
  proof
    fix a assume "a \<in> set rs"
    then have "field a ''title'' \<in> set (map (\<lambda>a. field a ''title'') rs)" by simp
    with assms have "field a ''title'' \<in> (\<lambda>item. Some (item_title item)) ` set (filter has_title items)"
      by simp
    then show "\<exists>t. field a ''title'' = Some t \<and> truthy t"
      by (auto simp add: has_title_def)
  qed
qed

lemma field_PDict: "field (PDict d) key = map_of d (str key)"
  by (simp add: field_def)

lemma extract_keys_missing:
  "key \<in> set keys \<Longrightarrow> map_of d key = None \<Longrightarrow> \<exists>exc. extract_keys (PDict d) keys = Inl exc"
proof (induction keys)
  case Nil
  then show ?case by simp
next
  case (Cons k keys)
  show ?case
  proof (cases "map_of d k")
    case None
    then show ?thesis by simp
  next
    case (Some v)
    with Cons.prems have "key \<in> set keys" by auto
    from Cons.IH [OF this Cons.prems(2)] obtain exc where "extract_keys (PDict d) keys = Inl exc"
      by blast
    with Some show ?thesis by simp
  qed
qed

lemma search_news_by_uuid_payload_missing:
  assumes "key \<in> set article_keys" and "map_of d key = None"
  shows "search_news_by_uuid_payload (PDict d) = Inr (PList []) \<or>
         (\<exists>exc. search_news_by_uuid_payload (PDict d) = Inl exc)"
proof (cases "upstream_error (PDict d)")
  case (Inl exc)
  then show ?thesis by (simp add: search_news_by_uuid_payload_def)
next
  case (Inr failed)
  from extract_keys_missing [OF assms] obtain exc where "extract_keys (PDict d) article_keys = Inl exc"
    by blast
  with Inr show ?thesis by (simp add: search_news_by_uuid_payload_def)
qed

lemma search_news_by_uuid_result:
  "search_news_by_uuid self http uuid trace =
     (case and_then (request_json http (news_uuid_url @ uuid)
                       [(str ''api_token'', token_value (access_token self))])
             search_news_by_uuid_payload of
        Inl exc \<Rightarrow> Inr (PList [])
      | Inr result \<Rightarrow> Inr result,
      trace @ [Invoke_search_news_by_uuid uuid,
               Http_get (news_uuid_url @ uuid) [(str ''api_token'', token_value (access_token self))]])"
  by (simp add: search_news_by_uuid_def Let_def split: sum.split)

lemma search_news_by_uuid_returns:
  "\<exists>result. fst (search_news_by_uuid self http uuid trace) = Inr result"
  by (simp add: search_news_by_uuid_result split: sum.split)

lemma get_article_valid_uuid_keys:
  assumes "strip uuid \<noteq> []"
  shows "\<exists>result. fst (search_news_by_uuid cl http uuid trace) = Inr result \<and>
           envelope_field (get_article cl http uuid trace) ''uuid'' = Some (PStr uuid) \<and>
           envelope_field (get_article cl http uuid trace) ''result'' = Some result \<and>
           envelope_field (get_article cl http uuid trace) ''status'' =
             Some (PStr (if truthy result then str ''success'' else str ''no_results'')) \<and>
           envelope_field (get_article cl http uuid trace) ''message'' =
             (if truthy result then None else Some (PStr no_results_message))"
proof -
  from assms have valid: "\<not> (uuid = [] \<or> strip uuid = [])"
    by (auto simp add: strip_def)
  obtain result where "fst (search_news_by_uuid cl http uuid trace) = Inr result"
    using search_news_by_uuid_returns by blast
  then obtain trace' where gw: "search_news_by_uuid cl http uuid trace = (Inr result, trace')"
    by (cases "search_news_by_uuid cl http uuid trace") simp
  with valid show ?thesis
    by (simp add: get_article_def Let_def envelope_field_def field_def)
qed

section \<open>Rejected queries\<close>

text \<open>
  C1. A query that is empty or consists of whitespace only: \<open>search\<close> returns the
  envelope with status \<open>error\<close>, the empty list of results and the message
  \<open>Empty search query provided\<close>, and the trace is the one it was given: no gateway
  method was entered and no HTTP request was sent.
\<close>

theorem search_blank_query_error:
  assumes "\<forall>c \<in> set query. isspace c"
  shows "search thenewsapi_client http query limit categories trace =
           (Inr (PDict
              [(str ''query'', PStr query),
               (str ''results'', PList []),
               (str ''status'', PStr (str ''error'')),
               (str ''message'', PStr (str ''Empty search query provided''))]),
            trace)"
proof -
  from assms have "strip query = []" by (simp add: strip_eq_Nil_iff)
  then show ?thesis by (simp add: search_def)
qed

theorem search_blank_query_error_witness:
  "list_all isspace (str ''  '') \<and>
   search (init_client None) (\<lambda>url params. Inl Timeout) (str ''  '') 1 None [] =
     (Inr (PDict
        [(str ''query'', PStr (str ''  '')),
         (str ''results'', PList []),
         (str ''status'', PStr (str ''error'')),
         (str ''message'', PStr (str ''Empty search query provided''))]),
      [])"
proof -
  have blank: "list_all isspace (str ''  '')"
    by (simp add: str_def isspace_def)
  then have "\<forall>c \<in> set (str ''  ''). isspace c"
    by (simp add: list_all_iff)
  from search_blank_query_error [OF this] blank show ?thesis by blast
qed

section \<open>What is sent upstream\<close>

text \<open>
  C3. With \<open>eff\<close> the clamped limit (1 for a limit of at most 0, 3 for a limit
  above 3, the limit itself from 1 to 3): for a query that passes the
  check, \<open>search\<close> enters \<open>search_news\<close> with \<open>eff\<close>, so the tool has clamped the limit
  before it delegates, and the one request carries \<open>eff\<close> as its \<open>limit\<close>;
  \<open>search_news\<close> entered with the raw limit sends \<open>eff\<close> as well, so the gateway clamps
  on its own. For a rejected query nothing is sent.
\<close>

theorem limit_clamped:
  "\<exists>eff. (limit \<le> 0 \<longrightarrow> eff = 1) \<and> (3 < limit \<longrightarrow> eff = 3) \<and>
         (1 \<le> limit \<and> limit \<le> 3 \<longrightarrow> eff = limit) \<and>
         snd (search cl http query limit categories trace) =
           trace @ (if strip query = [] then []
                    else [Invoke_search_news query categories eff,
                          Http_get news_all_url (search_news_params cl query categories eff)]) \<and>
         sent_param ''limit'' (snd (search cl http query limit categories trace)) =
           sent_param ''limit'' trace @ (if strip query = [] then [] else [Some (PInt eff)]) \<and>
         sent_param ''limit'' (snd (search_news cl http query categories limit trace)) =
           sent_param ''limit'' trace @ (if strip query = [] then [] else [Some (PInt eff)])"
proof -
  define eff where "eff = (if limit \<le> 0 then 1 else if 3 < limit then 3 else limit)"
  have again: "(if eff \<le> 0 then 1 else if 3 < eff then 3 else eff) = eff"
    by (simp add: eff_def)
  have cases: "(limit \<le> 0 \<longrightarrow> eff = 1) \<and> (3 < limit \<longrightarrow> eff = 3) \<and>
               (1 \<le> limit \<and> limit \<le> 3 \<longrightarrow> eff = limit)"
    by (simp add: eff_def)
  have p1: "map_of (search_news_params cl query categories eff) (str ''limit'') = Some (PInt eff)"
    using again by (simp only: limit_param)
  have p2: "map_of (search_news_params cl query categories limit) (str ''limit'') = Some (PInt eff)"
    by (simp only: limit_param eff_def)
  have facade: "snd (search cl http query limit categories trace) =
      trace @ (if strip query = [] then []
               else [Invoke_search_news query categories eff,
                     Http_get news_all_url (search_news_params cl query categories eff)])"
  proof (cases "strip query = []")
    case True
    then show ?thesis by (simp add: search_def)
  next
    case False
    obtain results where "fst (search_news cl http query categories eff trace) = Inr results"
      using search_news_returns by blast
    then obtain trace' where
      gw: "search_news cl http query categories eff trace = (Inr results, trace')"
      by (cases "search_news cl http query categories eff trace") simp
    have "snd (search cl http query limit categories trace) = trace'"
      using search_valid [OF False, of cl http categories limit trace results trace'] gw
      by (simp add: eff_def)
    moreover have "trace' = snd (search_news cl http query categories eff trace)"
      using gw by simp
    ultimately show ?thesis
      using False by (simp add: search_news_request)
  qed
  have sent_facade: "sent_param ''limit'' (snd (search cl http query limit categories trace)) =
      sent_param ''limit'' trace @ (if strip query = [] then [] else [Some (PInt eff)])"
    by (simp only: facade sent_param_append) (simp add: sent_param_def p1)
  have sent_gateway: "sent_param ''limit'' (snd (search_news cl http query categories limit trace)) =
      sent_param ''limit'' trace @ (if strip query = [] then [] else [Some (PInt eff)])"
  proof (cases "strip query = []")
    case True
    then show ?thesis
      by (simp add: search_news_blank sent_param_append) (simp add: sent_param_def)
  next
    case False
    then show ?thesis
      by (simp add: search_news_request sent_param_append) (simp add: sent_param_def p2)
  qed
  from cases facade sent_facade sent_gateway show ?thesis by blast
qed

theorem limit_clamped_witness:
  "(3::int) < 7 \<and>
   snd (search (init_client None) (\<lambda>url params. Inl Timeout) (str ''news'') 7 None []) =
     [Invoke_search_news (str ''news'') None 3,
      Http_get news_all_url (search_news_params (init_client None) (str ''news'') None 3)] \<and>
   sent_param ''limit''
     (snd (search (init_client None) (\<lambda>url params. Inl Timeout) (str ''news'') 7 None [])) =
     [Some (PInt 3)] \<and>
   sent_param ''limit''
     (snd (search_news (init_client None) (\<lambda>url params. Inl Timeout) (str ''news'') None 7 [])) =
     [Some (PInt 3)]"
proof -
  have valid: "strip (str ''news'') \<noteq> []"
    by (simp add: strip_def str_def isspace_def)
  have none: "sent_param ''limit'' [] = []"
    by (simp add: sent_param_def)
  from limit_clamped [of 7 "init_client None" "\<lambda>url params. Inl Timeout" "str ''news''" None "[]"]
  obtain eff where eff: "(3::int) < 7 \<longrightarrow> eff = 3"
    "snd (search (init_client None) (\<lambda>url params. Inl Timeout) (str ''news'') 7 None []) =
           [] @ (if strip (str ''news'') = [] then []
                    else [Invoke_search_news (str ''news'') None eff,
                          Http_get news_all_url (search_news_params (init_client None) (str ''news'') None eff)])"
    "sent_param ''limit'' (snd (search (init_client None) (\<lambda>url params. Inl Timeout) (str ''news'') 7 None [])) =
           sent_param ''limit'' [] @ (if strip (str ''news'') = [] then [] else [Some (PInt eff)])"
    "sent_param ''limit'' (snd (search_news (init_client None) (\<lambda>url params. Inl Timeout) (str ''news'') None 7 [])) =
           sent_param ''limit'' [] @ (if strip (str ''news'') = [] then [] else [Some (PInt eff)])"
    by blast
  from eff(1) have "eff = 3" by simp
  with eff(2,3,4) valid none show ?thesis by simp
qed

text \<open>
  C4. The values of the parameter \<open>search\<close> in the requests that \<open>search_news\<close> sends:
  none for a query that is rejected, the first 100 characters of the trimmed query
  when the trimmed query is longer than 300 characters, the trimmed query itself
  otherwise.
\<close>

theorem sent_search_text:
  "sent_param ''search'' (snd (search_news cl http query categories limit trace)) =
     sent_param ''search'' trace @
     (if strip query = [] then []
      else if 300 < length (strip query) then [Some (PStr (take 100 (strip query)))]
      else [Some (PStr (strip query))])"
proof (cases "strip query = []")
  case True
  then show ?thesis
    by (simp add: search_news_blank sent_param_append) (simp add: sent_param_def)
next
  case False
  then show ?thesis
    by (simp add: search_news_request sent_param_append) (simp add: sent_param_def search_param)
qed

theorem sent_search_text_witness:
  "300 < length (strip (replicate 301 97 @ str ''  '')) \<and>
   sent_param ''search''
     (snd (search_news (init_client None) (\<lambda>url params. Inl Timeout)
             (replicate 301 97 @ str ''  '') None 1 [])) =
     [Some (PStr (replicate 100 97))]"
proof -
  have trimmed: "strip (replicate 301 97 @ str ''  '') = replicate 301 97"
    by (simp add: strip_def str_def isspace_def dropWhile_append3)
  have "take 100 (replicate 301 (97::nat)) = replicate 100 97"
    by simp
  with trimmed
    sent_search_text [of "init_client None" "\<lambda>url params. Inl Timeout"
      "replicate 301 97 @ str ''  ''" None 1 "[]"]
  show ?thesis by (simp add: sent_param_def)
qed

lemma request_failure:
  assumes "(\<exists>exc. http api_url params = Inl exc) \<or>
    (\<exists>response. http api_url params = Inr response \<and>
       400 \<le> status_code response \<and> status_code response < 600) \<or>
    (\<exists>response. http api_url params = Inr response \<and> body response = None) \<or>
    (\<exists>response d v. http api_url params = Inr response \<and> body response = Some (PDict d) \<and>
       map_of d (str ''error'') = Some v)"
  shows "(\<exists>exc. request_json http api_url params = Inl exc) \<or>
         (\<exists>d v. request_json http api_url params = Inr (PDict d) \<and>
                map_of d (str ''error'') = Some v)"
  using assms
proof (elim disjE exE conjE)
  fix exc assume "http api_url params = Inl exc"
  then show ?thesis by (simp add: request_json_raised)
next
  fix response
  assume "http api_url params = Inr response"
    "400 \<le> status_code response" "status_code response < 600"
  then show ?thesis by (simp add: request_json_error_status)
next
  fix response
  assume "http api_url params = Inr response" "body response = None"
  then show ?thesis using request_json_no_json by blast
next
  fix response d v
  assume "http api_url params = Inr response" "body response = Some (PDict d)"
    "map_of d (str ''error'') = Some v"
  then show ?thesis by (simp add: request_json_body)
qed

section \<open>Failures of the upstream call\<close>

text \<open>
  C6, with the statuses that raise. \<open>search_news\<close> always returns a list, never
  an exception. The list is empty when \<open>requests.get\<close> raises (a timeout, a
  connection error, any other exception), when the status of the response is from
  400 to 599, when the body is not JSON, and when the body is an object with an
  \<open>error\<close> entry, whatever the status.
\<close>

theorem search_news_failure_empty:
  "(\<exists>results. fst (search_news self http query categories limit trace) = Inr results) \<and>
   ((\<exists>exc. http news_all_url (search_news_params self query categories limit) = Inl exc) \<or>
    (\<exists>response.
       http news_all_url (search_news_params self query categories limit) = Inr response \<and>
       400 \<le> status_code response \<and> status_code response < 600) \<or>
    (\<exists>response.
       http news_all_url (search_news_params self query categories limit) = Inr response \<and>
       body response = None) \<or>
    (\<exists>response d v.
       http news_all_url (search_news_params self query categories limit) = Inr response \<and>
       body response = Some (PDict d) \<and> map_of d (str ''error'') = Some v)
    \<longrightarrow> fst (search_news self http query categories limit trace) = Inr [])"
proof (intro conjI impI)
  show "\<exists>results. fst (search_news self http query categories limit trace) = Inr results"
    by (rule search_news_returns)
next
  assume "(\<exists>exc. http news_all_url (search_news_params self query categories limit) = Inl exc) \<or>
    (\<exists>response.
       http news_all_url (search_news_params self query categories limit) = Inr response \<and>
       400 \<le> status_code response \<and> status_code response < 600) \<or>
    (\<exists>response.
       http news_all_url (search_news_params self query categories limit) = Inr response \<and>
       body response = None) \<or>
    (\<exists>response d v.
       http news_all_url (search_news_params self query categories limit) = Inr response \<and>
       body response = Some (PDict d) \<and> map_of d (str ''error'') = Some v)"
  then have failure:
    "(\<exists>exc. request_json http news_all_url (search_news_params self query categories limit) = Inl exc) \<or>
     (\<exists>d v. request_json http news_all_url (search_news_params self query categories limit) =
              Inr (PDict d) \<and> map_of d (str ''error'') = Some v)"
    by (rule request_failure)
  show "fst (search_news self http query categories limit trace) = Inr []"
  proof (cases "strip query = []")
    case True
    then show ?thesis by (simp add: search_news_blank)
  next
    case False
    from failure show ?thesis
    proof
      assume "\<exists>exc. request_json http news_all_url
                      (search_news_params self query categories limit) = Inl exc"
      then show ?thesis by (auto simp add: search_news_result [OF False])
    next
      assume "\<exists>d v. request_json http news_all_url
                      (search_news_params self query categories limit) = Inr (PDict d) \<and>
                map_of d (str ''error'') = Some v"
      then obtain d v where
        resp: "request_json http news_all_url (search_news_params self query categories limit) =
                 Inr (PDict d)"
        and err: "map_of d (str ''error'') = Some v"
        by blast
      from search_news_payload_reported [OF err] resp show ?thesis
        by (auto simp add: search_news_result [OF False])
    qed
  qed
qed

theorem search_news_failure_empty_witness:
  "fst (search_news (init_client None) (\<lambda>url params. Inl Timeout) (str ''news'') None 1 []) = Inr [] \<and>
   fst (search_news (init_client None)
          (\<lambda>url params. Inr \<lparr> status_code = 404,
             body = Some (PDict [(str ''data'', PList [PDict [(str ''title'', PStr (str ''A''))]])]) \<rparr>)
          (str ''news'') None 1 []) = Inr [] \<and>
   fst (search_news (init_client None)
          (\<lambda>url params. Inr \<lparr> status_code = 200, body = None \<rparr>)
          (str ''news'') None 1 []) = Inr [] \<and>
   fst (search_news (init_client None)
          (\<lambda>url params. Inr \<lparr> status_code = 200,
             body = Some (PDict [(str ''error'', PDict [(str ''code'', PStr (str ''rate_limit''))])]) \<rparr>)
          (str ''news'') None 1 []) = Inr []"
proof -
  let ?params = "search_news_params (init_client None) (str ''news'') None 1"
  let ?timeout = "\<lambda>url params. Inl Timeout :: pyexn + http_response"
  let ?not_found = "\<lambda>url params. Inr \<lparr> status_code = 404,
             body = Some (PDict [(str ''data'', PList [PDict [(str ''title'', PStr (str ''A''))]])]) \<rparr>
             :: pyexn + http_response"
  let ?no_json = "\<lambda>url params. Inr \<lparr> status_code = 200, body = None \<rparr> :: pyexn + http_response"
  let ?reported = "\<lambda>url params. Inr \<lparr> status_code = 200,
             body = Some (PDict [(str ''error'', PDict [(str ''code'', PStr (str ''rate_limit''))])]) \<rparr>
             :: pyexn + http_response"
  have "\<exists>exc. ?timeout news_all_url ?params = Inl exc"
    by simp
  with search_news_failure_empty
    [of "init_client None" ?timeout "str ''news''" None 1 "[]"]
  have timeout: "fst (search_news (init_client None) ?timeout (str ''news'') None 1 []) = Inr []"
    by blast
  have "\<exists>response. ?not_found news_all_url ?params = Inr response \<and>
          400 \<le> status_code response \<and> status_code response < 600"
    by simp
  with search_news_failure_empty
    [of "init_client None" ?not_found "str ''news''" None 1 "[]"]
  have not_found: "fst (search_news (init_client None) ?not_found (str ''news'') None 1 []) = Inr []"
    by blast
  have "\<exists>response. ?no_json news_all_url ?params = Inr response \<and> body response = None"
    by simp
  with search_news_failure_empty
    [of "init_client None" ?no_json "str ''news''" None 1 "[]"]
  have no_json: "fst (search_news (init_client None) ?no_json (str ''news'') None 1 []) = Inr []"
    by blast
  have "\<exists>response d v. ?reported news_all_url ?params = Inr response \<and>
          body response = Some (PDict d) \<and> map_of d (str ''error'') = Some v"
    by simp
  with search_news_failure_empty
    [of "init_client None" ?reported "str ''news''" None 1 "[]"]
  have reported: "fst (search_news (init_client None) ?reported (str ''news'') None 1 []) = Inr []"
    by blast
  from timeout not_found no_json reported show ?thesis
    by (intro conjI)
qed

text \<open>
  C6 does not hold for every status outside 200 to 299: \<open>raise_for_status\<close> lets the
  status 300 pass, so a response with that status and a JSON body with one titled
  item gives a list of one article, not the empty list.
\<close>

theorem non_error_status_counterexample:
  "\<not> (200 \<le> status_code \<lparr> status_code = 300,
          body = Some (PDict [(str ''data'', PList [PDict [(str ''title'', PStr (str ''A''))]])]) \<rparr> \<and>
       status_code \<lparr> status_code = 300,
          body = Some (PDict [(str ''data'', PList [PDict [(str ''title'', PStr (str ''A''))]])]) \<rparr> < 300) \<and>
   fst (search_news (init_client None)
          (\<lambda>url params. Inr \<lparr> status_code = 300,
             body = Some (PDict [(str ''data'', PList [PDict [(str ''title'', PStr (str ''A''))]])]) \<rparr>)
          (str ''news'') None 1 []) =
     Inr [PDict
            [(str ''title'', PStr (str ''A'')),
             (str ''description'', PStr []),
             (str ''snippet'', PStr []),
             (str ''uuid'', PInt 0),
             (str ''published_at'', PStr []),
             (str ''url'', PStr []),
             (str ''source'', PInt 0)]] \<and>
   fst (search_news (init_client None)
          (\<lambda>url params. Inr \<lparr> status_code = 300,
             body = Some (PDict [(str ''data'', PList [PDict [(str ''title'', PStr (str ''A''))]])]) \<rparr>)
          (str ''news'') None 1 []) \<noteq> Inr []"
proof -
  let ?payload = "PDict [(str ''data'', PList [PDict [(str ''title'', PStr (str ''A''))]])]"
  let ?http = "\<lambda>url params. Inr \<lparr> status_code = 300, body = Some ?payload \<rparr>
                 :: pyexn + http_response"
  have valid: "strip (str ''news'') \<noteq> []"
    by (simp add: strip_def str_def isspace_def)
  have "request_json ?http news_all_url (search_news_params (init_client None) (str ''news'') None 1) =
          Inr ?payload"
    by (simp add: request_json_body)
  moreover have "search_news_payload ?payload =
     Inr [PDict
            [(str ''title'', PStr (str ''A'')),
             (str ''description'', PStr []),
             (str ''snippet'', PStr []),
             (str ''uuid'', PInt 0),
             (str ''published_at'', PStr []),
             (str ''url'', PStr []),
             (str ''source'', PInt 0)]]"
    by (simp add: search_news_payload_def upstream_error_def search_news_article_def)
  ultimately have "fst (search_news (init_client None) ?http (str ''news'') None 1 []) =
     Inr [PDict
            [(str ''title'', PStr (str ''A'')),
             (str ''description'', PStr []),
             (str ''snippet'', PStr []),
             (str ''uuid'', PInt 0),
             (str ''published_at'', PStr []),
             (str ''url'', PStr []),
             (str ''source'', PInt 0)]]"
    by (simp add: search_news_result [OF valid])
  then show ?thesis by simp
qed

section \<open>The envelope of \<open>search\<close>\<close>

text \<open>
  C10. The \<open>query\<close> entry of the envelope that \<open>search\<close> returns is the string the
  caller gave, for every query, whatever the gateway sends upstream.
\<close>

theorem envelope_query_verbatim:
  "envelope_field (search cl http query limit categories trace) ''query'' = Some (PStr query)"
proof (cases "strip query = []")
  case True
  then show ?thesis by (simp add: search_def envelope_field_def field_def)
next
  case False
  obtain results where
    "fst (search_news cl http query categories
            (if limit \<le> 0 then 1 else if 3 < limit then 3 else limit) trace) = Inr results"
    using search_news_returns by blast
  then obtain trace' where
    "search_news cl http query categories
       (if limit \<le> 0 then 1 else if 3 < limit then 3 else limit) trace = (Inr results, trace')"
    by (cases "search_news cl http query categories
                 (if limit \<le> 0 then 1 else if 3 < limit then 3 else limit) trace") simp
  from search_valid [OF False this] show ?thesis
    by (simp add: envelope_field_def field_def)
qed

text \<open>
  C7, for the queries that pass the check (not empty and not whitespace only). With
  \<open>results\<close> the list that \<open>search_news\<close> returns for the clamped limit, the envelope
  has the status \<open>success\<close> and no message when \<open>results\<close> is not empty, and the status
  \<open>no_results\<close>, a message that is not empty and the count 0 when it is; its
  \<open>results\<close> are that list and its \<open>count\<close> is the length of the list.
\<close>

theorem search_status_by_results:
  assumes "strip query \<noteq> []"
  shows "\<exists>results trace' env.
           search_news cl http query categories
             (if limit \<le> 0 then 1 else if 3 < limit then 3 else limit) trace = (Inr results, trace') \<and>
           search cl http query limit categories trace = (Inr env, trace') \<and>
           (results \<noteq> [] \<longrightarrow> field env ''status'' = Some (PStr (str ''success'')) \<and>
                                field env ''message'' = None) \<and>
           (results = [] \<longrightarrow> field env ''status'' = Some (PStr (str ''no_results'')) \<and>
                             (\<exists>m. field env ''message'' = Some (PStr m) \<and> m \<noteq> []) \<and>
                             field env ''count'' = Some (PInt 0)) \<and>
           field env ''results'' = Some (PList results) \<and>
           field env ''count'' = Some (PInt (int (length results)))"
proof -
  obtain results where
    "fst (search_news cl http query categories
            (if limit \<le> 0 then 1 else if 3 < limit then 3 else limit) trace) = Inr results"
    using search_news_returns by blast
  then obtain trace' where gw:
    "search_news cl http query categories
       (if limit \<le> 0 then 1 else if 3 < limit then 3 else limit) trace = (Inr results, trace')"
    by (cases "search_news cl http query categories
                 (if limit \<le> 0 then 1 else if 3 < limit then 3 else limit) trace") simp
  have msg: "no_results_message \<noteq> []"
    by (simp add: no_results_message_def)
  note facade = search_valid [OF assms gw]
  show ?thesis
  proof (cases "results = []")
    case True
    with facade gw msg show ?thesis by (simp add: field_def)
  next
    case False
    with facade gw show ?thesis by (simp add: field_def)
  qed
qed

theorem search_status_by_results_witness:
  "strip (str ''news'') \<noteq> [] \<and>
   envelope_field (search (init_client None) (\<lambda>url params. Inl Timeout) (str ''news'') 1 None [])
     ''status'' = Some (PStr (str ''no_results'')) \<and>
   envelope_field (search (init_client None) (\<lambda>url params. Inl Timeout) (str ''news'') 1 None [])
     ''count'' = Some (PInt 0) \<and>
   envelope_field (search (init_client None) (\<lambda>url params. Inl Timeout) (str ''news'') 1 None [])
     ''results'' = Some (PList [])"
proof -
  have valid: "strip (str ''news'') \<noteq> []"
    by (simp add: strip_def str_def isspace_def)
  from search_status_by_results [OF valid, of "init_client None" "\<lambda>url params. Inl Timeout" None 1 "[]"]
  obtain results trace' env where
    gw: "search_news (init_client None) (\<lambda>url params. Inl Timeout) (str ''news'') None 1 [] =
           (Inr results, trace')"
    and facade: "search (init_client None) (\<lambda>url params. Inl Timeout) (str ''news'') 1 None [] =
           (Inr env, trace')"
    and empty: "results = [] \<longrightarrow> field env ''status'' = Some (PStr (str ''no_results'')) \<and>
                (\<exists>m. field env ''message'' = Some (PStr m) \<and> m \<noteq> []) \<and>
                field env ''count'' = Some (PInt 0)"
    and res: "field env ''results'' = Some (PList results)"
    by auto
  have "fst (search_news (init_client None) (\<lambda>url params. Inl Timeout) (str ''news'') None 1 []) = Inr []"
    by (simp add: search_news_result [OF valid] request_json_raised)
  with gw have "results = []" by simp
  with empty res facade valid show ?thesis
    by (simp add: envelope_field_def)
qed

text \<open>
  C7 does not hold for every query that is not empty: the query of one space is not
  empty, its status is \<open>error\<close>, and its envelope has no \<open>count\<close>.
\<close>

theorem search_whitespace_query_counterexample:
  "str '' '' \<noteq> [] \<and>
   envelope_field (search (init_client None) (\<lambda>url params. Inr (ok_response (PDict []))) (str '' '') 1 None [])
     ''status'' = Some (PStr (str ''error'')) \<and>
   envelope_field (search (init_client None) (\<lambda>url params. Inr (ok_response (PDict []))) (str '' '') 1 None [])
     ''count'' = None"
proof -
  have "strip (str '' '') = []"
    by (simp add: strip_def str_def isspace_def)
  then show ?thesis
    by (simp add: search_def envelope_field_def field_def)
qed

section \<open>The result array\<close>

text \<open>
  C5, for a result array whose items are all JSON objects. In a success payload with
  such an array, for \<open>search_news\<close> and for \<open>search_similar_news_by_uuid\<close>: the titles
  of the returned list are, in order, the titles of the items whose title counts as
  present (is true in Python's sense: for a string, not empty), so that the other
  items are absent; every returned dict has a title that counts as present; and the
  list is as long as the number of items with such a title.
\<close>

theorem titled_items_kept:
  assumes "result_array payload items" and "\<forall>item \<in> set items. is_object item"
  shows "(strip query \<noteq> [] \<and>
          request_json http news_all_url (search_news_params self query categories limit) =
            Inr (PDict payload) \<longrightarrow>
          (\<exists>rs. fst (search_news self http query categories limit trace) = Inr rs \<and>
                map (\<lambda>a. field a ''title'') rs =
                  map (\<lambda>item. Some (item_title item)) (filter has_title items) \<and>
                (\<forall>a \<in> set rs. \<exists>t. field a ''title'' = Some t \<and> truthy t) \<and>
                length rs = length (filter has_title items))) \<and>
         (request_json http (news_similar_url @ uuid)
            (search_similar_news_params self limit categories) = Inr (PDict payload) \<longrightarrow>
          (\<exists>rs. fst (search_similar_news_by_uuid self http uuid limit categories trace) = Inr rs \<and>
                map (\<lambda>a. field a ''title'') rs =
                  map (\<lambda>item. Some (item_title item)) (filter has_title items) \<and>
                (\<forall>a \<in> set rs. \<exists>t. field a ''title'' = Some t \<and> truthy t) \<and>
                length rs = length (filter has_title items)))"
proof (intro conjI impI)
  assume req: "strip query \<noteq> [] \<and>
     request_json http news_all_url (search_news_params self query categories limit) =
       Inr (PDict payload)"
  from collect_results_objects [of search_news_article items "[]", OF search_news_article_object assms(2)]
  obtain rs where rs: "collect_results search_news_article items [] = Inr rs"
    "map (\<lambda>a. field a ''title'') rs = map (\<lambda>item. Some (item_title item)) (filter has_title items)"
    by auto
  from req rs(1) have "fst (search_news self http query categories limit trace) = Inr rs"
    by (simp add: search_news_result search_news_payload_success [OF assms(1)])
  with rs(2) titles_kept [OF rs(2)]
  show "\<exists>rs. fst (search_news self http query categories limit trace) = Inr rs \<and>
                map (\<lambda>a. field a ''title'') rs =
                  map (\<lambda>item. Some (item_title item)) (filter has_title items) \<and>
                (\<forall>a \<in> set rs. \<exists>t. field a ''title'' = Some t \<and> truthy t) \<and>
                length rs = length (filter has_title items)"
    by blast
next
  assume req: "request_json http (news_similar_url @ uuid)
            (search_similar_news_params self limit categories) = Inr (PDict payload)"
  from collect_results_objects [of similar_news_article items "[]", OF similar_news_article_object assms(2)]
  obtain rs where rs: "collect_results similar_news_article items [] = Inr rs"
    "map (\<lambda>a. field a ''title'') rs = map (\<lambda>item. Some (item_title item)) (filter has_title items)"
    by auto
  from req rs(1) have "fst (search_similar_news_by_uuid self http uuid limit categories trace) = Inr rs"
    by (simp add: search_similar_news_result search_similar_news_payload_success [OF assms(1)])
  with rs(2) titles_kept [OF rs(2)]
  show "\<exists>rs. fst (search_similar_news_by_uuid self http uuid limit categories trace) = Inr rs \<and>
                map (\<lambda>a. field a ''title'') rs =
                  map (\<lambda>item. Some (item_title item)) (filter has_title items) \<and>
                (\<forall>a \<in> set rs. \<exists>t. field a ''title'' = Some t \<and> truthy t) \<and>
                length rs = length (filter has_title items)"
    by blast
qed

theorem titled_items_kept_witness:
  "result_array
     [(str ''data'', PList [PDict [(str ''title'', PStr (str ''A''))], PDict [(str ''url'', PStr (str ''u''))]])]
     [PDict [(str ''title'', PStr (str ''A''))], PDict [(str ''url'', PStr (str ''u''))]] \<and>
   list_all is_object [PDict [(str ''title'', PStr (str ''A''))], PDict [(str ''url'', PStr (str ''u''))]] \<and>
   strip (str ''news'') \<noteq> [] \<and>
   length (filter has_title [PDict [(str ''title'', PStr (str ''A''))], PDict [(str ''url'', PStr (str ''u''))]]) = 1 \<and>
   (\<exists>rs. fst (search_news (init_client None)
                 (\<lambda>url params. Inr (ok_response (PDict [(str ''data'', PList [PDict [(str ''title'', PStr (str ''A''))], PDict [(str ''url'', PStr (str ''u''))]])])))
                 (str ''news'') None 1 []) = Inr rs \<and>
         map (\<lambda>a. field a ''title'') rs = [Some (PStr (str ''A''))] \<and> length rs = 1) \<and>
   (\<exists>rs. fst (search_similar_news_by_uuid (init_client None)
                 (\<lambda>url params. Inr (ok_response (PDict [(str ''data'', PList [PDict [(str ''title'', PStr (str ''A''))], PDict [(str ''url'', PStr (str ''u''))]])])))
                 (str ''abc'') 1 None []) = Inr rs \<and>
         map (\<lambda>a. field a ''title'') rs = [Some (PStr (str ''A''))] \<and> length rs = 1)"
proof -
  let ?items = "[PDict [(str ''title'', PStr (str ''A''))], PDict [(str ''url'', PStr (str ''u''))]]"
  let ?payload = "[(str ''data'', PList ?items)]"
  let ?http = "\<lambda>url params. Inr (ok_response (PDict ?payload)) :: pyexn + http_response"
  have array: "result_array ?payload ?items"
    by (simp add: result_array_def)
  have objects: "\<forall>item \<in> set ?items. is_object item"
    by simp
  have valid: "strip (str ''news'') \<noteq> []"
    by (simp add: strip_def str_def isspace_def)
  have titled: "filter has_title ?items = [PDict [(str ''title'', PStr (str ''A''))]]"
    by (simp add: has_title_def)
  note kept = titled_items_kept [OF array objects, where query = "str ''news''" and http = ?http
      and self = "init_client None" and categories = None and limit = 1 and uuid = "str ''abc''"
      and trace = "[]"]
  have got: "request_json ?http news_all_url
               (search_news_params (init_client None) (str ''news'') None 1) = Inr (PDict ?payload)"
    by simp
  have got': "request_json ?http (news_similar_url @ str ''abc'')
                (search_similar_news_params (init_client None) 1 None) = Inr (PDict ?payload)"
    by simp
  from kept valid got obtain rs where rs:
    "fst (search_news (init_client None) ?http (str ''news'') None 1 []) = Inr rs"
    "map (\<lambda>a. field a ''title'') rs = map (\<lambda>item. Some (item_title item)) (filter has_title ?items)"
    by blast
  from kept got' obtain rs' where rs':
    "fst (search_similar_news_by_uuid (init_client None) ?http (str ''abc'') 1 None []) = Inr rs'"
    "map (\<lambda>a. field a ''title'') rs' = map (\<lambda>item. Some (item_title item)) (filter has_title ?items)"
    by blast
  from rs(2) have titles: "map (\<lambda>a. field a ''title'') rs = [Some (PStr (str ''A''))]"
    by (simp only: titled) simp
  then have len: "length rs = 1"
    by (metis length_map length_Cons list.size(3) One_nat_def)
  from rs'(2) have titles': "map (\<lambda>a. field a ''title'') rs' = [Some (PStr (str ''A''))]"
    by (simp only: titled) simp
  then have len': "length rs' = 1"
    by (metis length_map length_Cons list.size(3) One_nat_def)
  have objs: "list_all is_object ?items"
    by simp
  have count: "length (filter has_title ?items) = 1"
    by (simp only: titled) simp
  from rs(1) titles len have first: "\<exists>rs. fst (search_news (init_client None) ?http (str ''news'') None 1 []) = Inr rs \<and>
         map (\<lambda>a. field a ''title'') rs = [Some (PStr (str ''A''))] \<and> length rs = 1"
    by auto
  from rs'(1) titles' len' have second: "\<exists>rs. fst (search_similar_news_by_uuid (init_client None) ?http (str ''abc'') 1 None []) = Inr rs \<and>
         map (\<lambda>a. field a ''title'') rs = [Some (PStr (str ''A''))] \<and> length rs = 1"
    by auto
  from array objs valid count first second show ?thesis
    by (intro conjI)
qed

text \<open>
  C5 does not hold for an array with an item that is not an object: reading the
  title of the number 5 raises an AttributeError, the last \<open>except\<close> clause turns it
  into the empty list, and the item with the title \<open>A\<close> is lost with it (in general:
  \<open>non_object_item_empty_list\<close>).
\<close>

theorem non_object_item_counterexample:
  "result_array
     [(str ''data'', PList [PDict [(str ''title'', PStr (str ''A''))], PInt 5])]
     [PDict [(str ''title'', PStr (str ''A''))], PInt 5] \<and>
   length (filter has_title [PDict [(str ''title'', PStr (str ''A''))], PInt 5]) = 1 \<and>
   fst (search_news (init_client None)
          (\<lambda>url params. Inr (ok_response (PDict [(str ''data'', PList [PDict [(str ''title'', PStr (str ''A''))], PInt 5])])))
          (str ''news'') None 1 []) = Inr [] \<and>
   fst (search_similar_news_by_uuid (init_client None)
          (\<lambda>url params. Inr (ok_response (PDict [(str ''data'', PList [PDict [(str ''title'', PStr (str ''A''))], PInt 5])])))
          (str ''abc'') 1 None []) = Inr []"
proof -
  let ?items = "[PDict [(str ''title'', PStr (str ''A''))], PInt 5]"
  let ?payload = "[(str ''data'', PList ?items)]"
  have array: "result_array ?payload ?items"
    by (simp add: result_array_def)
  have valid: "strip (str ''news'') \<noteq> []"
    by (simp add: strip_def str_def isspace_def)
  have titled: "length (filter has_title ?items) = 1"
    by (simp add: has_title_def)
  have loop1: "collect_results search_news_article ?items [] = Inl AttributeError"
    by (simp add: search_news_article_def)
  have loop2: "collect_results similar_news_article ?items [] = Inl AttributeError"
    by (simp add: similar_news_article_def)
  have "search_news_payload (PDict ?payload) = Inl AttributeError"
    by (simp only: search_news_payload_success [OF array] loop1)
  then have "fst (search_news (init_client None) (\<lambda>url params. Inr (ok_response (PDict ?payload))) (str ''news'') None 1 []) = Inr []"
    by (simp add: search_news_result [OF valid])
  moreover have "search_similar_news_payload (PDict ?payload) = Inl AttributeError"
    by (simp only: search_similar_news_payload_success [OF array] loop2)
  then have "fst (search_similar_news_by_uuid (init_client None) (\<lambda>url params. Inr (ok_response (PDict ?payload)))
                        (str ''abc'') 1 None []) = Inr []"
    by (simp add: search_similar_news_result)
  ultimately show ?thesis using array titled by simp
qed

text \<open>
  C9. An item that is an object with a title is appended as one dict, by
  \<open>search_news\<close> and by \<open>search_similar_news_by_uuid\<close>. In that dict \<open>uuid\<close> and
  \<open>source\<close> are the integer 0 when the item has no such key, and \<open>description\<close>,
  \<open>snippet\<close>, \<open>published_at\<close> and \<open>url\<close> are the empty string when the item has no such
  key.
\<close>

theorem missing_field_defaults:
  assumes "is_object item" and "has_title item"
  shows "\<exists>a b. collect_results search_news_article [item] [] = Inr [a] \<and>
               collect_results similar_news_article [item] [] = Inr [b] \<and>
               (\<forall>key \<in> {''uuid'', ''source''}.
                  field item key = None \<longrightarrow>
                  field a key = Some (PInt 0) \<and> field b key = Some (PInt 0)) \<and>
               (\<forall>key \<in> {''description'', ''snippet'', ''published_at'', ''url''}.
                  field item key = None \<longrightarrow>
                  field a key = Some (PStr []) \<and> field b key = Some (PStr []))"
proof -
  from assms(1) obtain d where item: "item = PDict d"
    by (cases item) simp_all
  from assms(2) have titled: "truthy (item_title (PDict d))"
    by (simp add: has_title_def item)
  define get where "get key dflt = (case map_of d (str key) of None \<Rightarrow> dflt | Some v \<Rightarrow> v)"
    for key :: string and dflt :: pyval
  define a where "a = PDict
         [(str ''title'', item_title (PDict d)),
          (str ''description'', get ''description'' (PStr [])),
          (str ''snippet'', get ''snippet'' (PStr [])),
          (str ''uuid'', get ''uuid'' (PInt 0)),
          (str ''published_at'', get ''published_at'' (PStr [])),
          (str ''url'', get ''url'' (PStr [])),
          (str ''source'', get ''source'' (PInt 0))]"
  define b where "b = PDict
         [(str ''title'', item_title (PDict d)),
          (str ''description'', get ''description'' (PStr [])),
          (str ''snippet'', get ''snippet'' (PStr [])),
          (str ''uuid'', get ''uuid'' (PInt 0)),
          (str ''source'', get ''source'' (PInt 0)),
          (str ''published_at'', get ''published_at'' (PStr [])),
          (str ''url'', get ''url'' (PStr []))]"
  have mk_a: "search_news_article (PDict d) (item_title (PDict d)) = Inr a"
    by (simp add: search_news_article_def a_def get_def)
  have mk_b: "similar_news_article (PDict d) (item_title (PDict d)) = Inr b"
    by (simp add: similar_news_article_def b_def get_def)
  have title: "py_get (PDict d) (str ''title'') PNone = Inr (item_title (PDict d))"
    by simp
  have loop_a: "collect_results search_news_article [item] [] = Inr [a]"
    using titled by (simp only: item collect_results.simps title and_then_Inr mk_a) simp
  have loop_b: "collect_results similar_news_article [item] [] = Inr [b]"
    using titled by (simp only: item collect_results.simps title and_then_Inr mk_b) simp
  have ints: "\<forall>key \<in> {''uuid'', ''source''}.
                  field item key = None \<longrightarrow>
                  field a key = Some (PInt 0) \<and> field b key = Some (PInt 0)"
    by (simp add: item field_PDict a_def b_def get_def)
  have strs: "\<forall>key \<in> {''description'', ''snippet'', ''published_at'', ''url''}.
                  field item key = None \<longrightarrow>
                  field a key = Some (PStr []) \<and> field b key = Some (PStr [])"
    by (simp add: item field_PDict a_def b_def get_def)
  from loop_a loop_b ints strs show ?thesis by blast
qed

theorem missing_field_defaults_witness:
  "is_object (PDict [(str ''title'', PStr (str ''A''))]) \<and>
   has_title (PDict [(str ''title'', PStr (str ''A''))]) \<and>
   field (PDict [(str ''title'', PStr (str ''A''))]) ''uuid'' = None \<and>
   field (PDict [(str ''title'', PStr (str ''A''))]) ''url'' = None \<and>
   (\<exists>a b. collect_results search_news_article [PDict [(str ''title'', PStr (str ''A''))]] [] = Inr [a] \<and>
          collect_results similar_news_article [PDict [(str ''title'', PStr (str ''A''))]] [] = Inr [b] \<and>
          field a ''uuid'' = Some (PInt 0) \<and> field b ''uuid'' = Some (PInt 0) \<and>
          field a ''url'' = Some (PStr []) \<and> field b ''url'' = Some (PStr []))"
proof -
  let ?item = "PDict [(str ''title'', PStr (str ''A''))]"
  have object: "is_object ?item"
    by simp
  have titled: "has_title ?item"
    by (simp add: has_title_def)
  have no_uuid: "field ?item ''uuid'' = None" and no_url: "field ?item ''url'' = None"
    by (simp_all add: field_def)
  from missing_field_defaults [OF object titled] no_uuid no_url
  have "\<exists>a b. collect_results search_news_article [?item] [] = Inr [a] \<and>
          collect_results similar_news_article [?item] [] = Inr [b] \<and>
          field a ''uuid'' = Some (PInt 0) \<and> field b ''uuid'' = Some (PInt 0) \<and>
          field a ''url'' = Some (PStr []) \<and> field b ''url'' = Some (PStr [])"
    by (simp only: insert_iff empty_iff ball_simps simp_thms) blast
  with object titled no_uuid no_url show ?thesis
    by (intro conjI)
qed

section \<open>The lookup by identifier\<close>

text \<open>
  C2, as the code has it: when the request of \<open>search_news_by_uuid\<close> succeeds with an
  object that lacks one of the keys \<open>uuid\<close>, \<open>title\<close>, \<open>snippet\<close>, \<open>description\<close>,
  \<open>url\<close>, \<open>source\<close>, the method returns the empty list. The KeyError of the lookup is
  raised inside the \<open>try\<close> block and caught by its last \<open>except\<close> clause; it does not
  leave the method.
\<close>

theorem missing_key_empty_result:
  assumes "key \<in> set article_keys" and "map_of payload key = None"
    and "http (news_uuid_url @ uuid) [(str ''api_token'', token_value (access_token self))] =
           Inr response"
    and "body response = Some (PDict payload)"
  shows "fst (search_news_by_uuid self http uuid trace) = Inr (PList [])"
proof -
  from request_json_body [where http = http and api_url = "news_uuid_url @ uuid"
      and params = "[(str ''api_token'', token_value (access_token self))]", OF assms(3,4)]
  have "request_json http (news_uuid_url @ uuid)
          [(str ''api_token'', token_value (access_token self))] = Inl HTTPError \<or>
        request_json http (news_uuid_url @ uuid)
          [(str ''api_token'', token_value (access_token self))] = Inr (PDict payload)"
    by (simp split: if_splits)
  with search_news_by_uuid_payload_missing [OF assms(1,2)] show ?thesis
    by (auto simp add: search_news_by_uuid_result)
qed

theorem missing_key_empty_result_witness:
  "str ''source'' \<in> set article_keys \<and>
   map_of [(str ''uuid'', PStr (str ''abc'')), (str ''title'', PStr (str ''A''))] (str ''source'') = None \<and>
   body (ok_response (PDict [(str ''uuid'', PStr (str ''abc'')), (str ''title'', PStr (str ''A''))])) =
     Some (PDict [(str ''uuid'', PStr (str ''abc'')), (str ''title'', PStr (str ''A''))]) \<and>
   fst (search_news_by_uuid (init_client None)
          (\<lambda>url params. Inr (ok_response
             (PDict [(str ''uuid'', PStr (str ''abc'')), (str ''title'', PStr (str ''A''))])))
          (str ''abc'') []) = Inr (PList [])"
proof -
  let ?payload = "[(str ''uuid'', PStr (str ''abc'')), (str ''title'', PStr (str ''A''))]"
  let ?http = "\<lambda>url params. Inr (ok_response (PDict ?payload)) :: pyexn + http_response"
  have key: "str ''source'' \<in> set article_keys"
    by (simp add: article_keys_def)
  have missing: "map_of ?payload (str ''source'') = None"
    by simp
  have got: "?http (news_uuid_url @ str ''abc'')
               [(str ''api_token'', token_value (access_token (init_client None)))] =
             Inr (ok_response (PDict ?payload))"
    by simp
  have decoded: "body (ok_response (PDict ?payload)) = Some (PDict ?payload)"
    by (simp add: ok_response_def)
  from missing_key_empty_result [where http = ?http and self = "init_client None"
      and uuid = "str ''abc''" and trace = "[]", OF key missing got decoded] key missing decoded
  show ?thesis by (intro conjI)
qed

text \<open>
  C2 with a propagating exception does not hold: for a payload with every key but
  \<open>source\<close> the lookup raises \<open>KeyError\<close>, and the method returns the empty list, not
  the exception.
\<close>

theorem missing_key_counterexample:
  "map_of [(str ''uuid'', PStr (str ''abc'')), (str ''title'', PStr (str ''A'')),
           (str ''snippet'', PStr (str ''s'')), (str ''description'', PStr (str ''d'')),
           (str ''url'', PStr (str ''u''))] (str ''source'') = None \<and>
   search_news_by_uuid_payload
     (PDict [(str ''uuid'', PStr (str ''abc'')), (str ''title'', PStr (str ''A'')),
             (str ''snippet'', PStr (str ''s'')), (str ''description'', PStr (str ''d'')),
             (str ''url'', PStr (str ''u''))]) = Inl (KeyError (str ''source'')) \<and>
   fst (search_news_by_uuid (init_client None)
          (\<lambda>url params. Inr (ok_response
             (PDict [(str ''uuid'', PStr (str ''abc'')), (str ''title'', PStr (str ''A'')),
                     (str ''snippet'', PStr (str ''s'')), (str ''description'', PStr (str ''d'')),
                     (str ''url'', PStr (str ''u''))])))
          (str ''abc'') []) = Inr (PList [])"
proof -
  let ?payload = "PDict [(str ''uuid'', PStr (str ''abc'')), (str ''title'', PStr (str ''A'')),
             (str ''snippet'', PStr (str ''s'')), (str ''description'', PStr (str ''d'')),
             (str ''url'', PStr (str ''u''))]"
  have raised: "search_news_by_uuid_payload ?payload = Inl (KeyError (str ''source''))"
    by (simp add: search_news_by_uuid_payload_def upstream_error_def article_keys_def)
  then have "fst (search_news_by_uuid (init_client None)
                    (\<lambda>url params. Inr (ok_response ?payload)) (str ''abc'') []) = Inr (PList [])"
    by (simp add: search_news_by_uuid_result)
  with raised show ?thesis by simp
qed

text \<open>
  C8 at the empty identifier: \<open>get_article\<close> returns the envelope with the keys
  \<open>uuid\<close>, \<open>results\<close>, \<open>status\<close> and \<open>message\<close>; it has no key \<open>result\<close>. (For an
  identifier that passes the check the keys are \<open>uuid\<close>, \<open>result\<close>, \<open>status\<close>, and
  \<open>message\<close> with an empty result: \<open>get_article_valid_uuid_keys\<close>.)
\<close>

theorem get_article_empty_uuid_envelope:
  "get_article cl http [] trace =
     (Inr (PDict
        [(str ''uuid'', PStr []),
         (str ''results'', PList []),
         (str ''status'', PStr (str ''error'')),
         (str ''message'', PStr (str ''Empty search query provided''))]),
      trace) \<and>
   envelope_field (get_article cl http [] trace) ''result'' = None"
  by (simp add: get_article_def envelope_field_def field_def)

end
